theory Spec2Isabelle
  imports Complex_Main "HOL-Library.AList" "HOL-Library.Log_Nat"
begin

section \<open>Ticker extraction, mention ranking and recommendation synthesis\<close>

text \<open>
  The development follows three source files: \<^verbatim>\<open>api/trending.js\<close> (the edge handler),
  \<^verbatim>\<open>src/api.js\<close> (the same extraction and ranking run in the browser) and
  \<^verbatim>\<open>src/App.jsx\<close> (\<^verbatim>\<open>runAnalysis\<close>: the per-ticker loop and the synthesis
  of a recommendation).

  Conventions of the embedding.
  \<^item> A JavaScript string is a \<open>string\<close>. The two regular expressions only tell
    \<^verbatim>\<open>$\<close>, \<^verbatim>\<open>A-Z\<close> and the word characters \<^verbatim>\<open>[A-Za-z0-9_]\<close> apart from
    everything else, so any other code unit behaves like any other non-word character.
  \<^item> A field that may be \<^verbatim>\<open>null\<close> or absent is an \<open>option\<close>; \<open>None\<close> stands for both.
  \<^item> A JavaScript number is the rational that the binary64 value denotes. Products, sums
    and decimal literals are rounded to binary64 (\<open>fl64\<close>); comparisons, \<^verbatim>\<open>Math.round\<close>,
    \<^verbatim>\<open>Math.abs\<close> and \<^verbatim>\<open>toFixed\<close> are exact on such values, in the code as in the
    model. \<^verbatim>\<open>NaN\<close> is not modelled.
  \<^item> An exception is the \<open>Inl\<close> of a sum, carrying \<^verbatim>\<open>e.message\<close>.
\<close>

subsection \<open>The lexicon\<close>

text \<open>
  \<^verbatim>\<open>const FALSE_POSITIVES = new Set([...])\<close>, in source order, with the three words the
  source lists twice. The two files hold the same list. \<^verbatim>\<open>FALSE_POSITIVES.has(w)\<close> is
  \<open>w \<in> set FALSE_POSITIVES\<close>.
\<close>

definition FALSE_POSITIVES :: "string list" where
  "FALSE_POSITIVES = [
    ''I'', ''A'', ''AM'', ''AN'', ''AT'', ''BE'', ''BY'', ''DO'', ''GO'', ''IF'', ''IN'', ''IS'',
    ''IT'', ''ME'', ''MY'', ''NO'', ''OF'', ''OK'', ''ON'', ''OR'', ''SO'', ''TO'', ''UP'', ''US'',
    ''WE'', ''CEO'', ''CFO'', ''CTO'', ''COO'', ''IPO'', ''ETF'', ''SEC'', ''FDA'', ''FED'',
    ''GDP'', ''ATH'', ''DD'', ''DFV'', ''EPS'', ''EOD'', ''ERR'', ''EST'', ''FOR'', ''FYI'',
    ''GG'', ''HQ'', ''IMO'', ''LOL'', ''NYC'', ''OTC'', ''PDT'', ''PE'', ''PM'', ''PT'',
    ''RH'', ''SP'', ''TD'', ''UK'', ''USA'', ''WSB'', ''YOLO'', ''FOMO'', ''HODL'', ''MOON'',
    ''APE'', ''APR'', ''MAY'', ''JUN'', ''JUL'', ''AUG'', ''SEP'', ''OCT'', ''NOV'', ''DEC'',
    ''JAN'', ''FEB'', ''MAR'', ''MON'', ''TUE'', ''WED'', ''THU'', ''FRI'', ''SAT'', ''SUN'',
    ''THE'', ''AND'', ''BUT'', ''NOT'', ''ALL'', ''ANY'', ''ARE'', ''CAN'', ''DAY'', ''DID'',
    ''GET'', ''GOT'', ''HAS'', ''HAD'', ''HER'', ''HIM'', ''HIS'', ''HOW'', ''ITS'', ''LET'',
    ''MAD'', ''MAN'', ''MEN'', ''NEW'', ''NOW'', ''OLD'', ''ONE'', ''OUR'', ''OUT'', ''OWN'',
    ''PUT'', ''RAN'', ''RED'', ''RUN'', ''SAW'', ''SAY'', ''SHE'', ''THE'', ''TOO'', ''TOP'',
    ''TRY'', ''TWO'', ''WAR'', ''WAS'', ''WAY'', ''WHO'', ''WHY'', ''WIN'', ''WON'', ''YET'',
    ''YOU'', ''BIG'', ''LOW'', ''HIGH'', ''CALL'', ''PUTS'', ''LONG'', ''SHORT'', ''BULL'',
    ''BEAR'', ''HOLD'', ''SELL'', ''BUY'', ''GAIN'', ''LOSS'', ''PUMP'', ''DUMP'', ''CASH'',
    ''DEBT'', ''RISK'', ''SAFE'', ''EDIT'', ''TLDR'', ''OP'', ''LMAO'', ''ROPE'', ''RIP'',
    ''BANG'', ''OG'', ''AI'', ''EV'', ''GOOD'', ''BAD'', ''BEST'', ''LIKE'', ''JUST'', ''EVEN'',
    ''OVER'', ''MOST'', ''MUCH'', ''NEXT'', ''ONLY'', ''VERY'', ''WELL'', ''ALSO'', ''BACK'',
    ''BEEN'', ''COME'', ''DOWN'', ''EACH'', ''FIND'', ''GIVE'', ''HAVE'', ''HERE'', ''KEEP'',
    ''LAST'', ''LOOK'', ''MADE'', ''MAKE'', ''MANY'', ''MORE'', ''MOVE'', ''MUST'', ''NAME'',
    ''NEED'', ''OPEN'', ''PART'', ''PLAY'', ''REAL'', ''SAID'', ''SAME'', ''SOME'', ''SURE'',
    ''TAKE'', ''TELL'', ''THAN'', ''THAT'', ''THEM'', ''THEN'', ''THEY'', ''THIS'', ''TIME'',
    ''TURN'', ''WANT'', ''WEEK'', ''WENT'', ''WERE'', ''WHAT'', ''WHEN'', ''WILL'', ''WITH'',
    ''WORK'', ''YEAR'', ''YOUR'', ''FREE'', ''HUGE'', ''HARD'', ''ZERO'', ''LMFAO'',
    ''COST'', ''FROM'', ''DOES'', ''DONE'', ''FULL'', ''HALF'', ''HELP'', ''HOME'', ''INTO'',
    ''LEFT'', ''LESS'', ''LIFE'', ''LINE'', ''LIST'', ''LIVE'', ''LONG'', ''LOST'', ''MARK'',
    ''MISS'', ''OWE'', ''PAYS'', ''POST'', ''REST'', ''RICH'', ''RISE'', ''SAVE'', ''SIDE'',
    ''SIZE'', ''STOP'', ''TALK'', ''TERM'', ''THEM'', ''TILL'', ''TRUE'', ''TYPE'', ''USED'',
    ''WAIT'', ''WAKE'', ''WALL'', ''WISH'', ''WORD'', ''YALL'', ''HOLY'', ''SHIT'']"

subsection \<open>The two regular expressions\<close>

text \<open>\<^verbatim>\<open>[A-Z]\<close> and \<^verbatim>\<open>\w\<close>, on the character code.\<close>

definition is_upper :: "char \<Rightarrow> bool" where
  "is_upper c = (65 \<le> (of_char c :: nat) \<and> (of_char c :: nat) \<le> 90)"

definition is_word :: "char \<Rightarrow> bool" where
  "is_word c =
     (let n = (of_char c :: nat)
      in (65 \<le> n \<and> n \<le> 90) \<or> (97 \<le> n \<and> n \<le> 122) \<or> (48 \<le> n \<and> n \<le> 57) \<or> n = 95)"

text \<open>
  \<^verbatim>\<open>\b\<close> at a position: the character before it (\<open>None\<close> at the start of the text) and
  the character after it (none at the end) differ in being word characters.
\<close>

fun word_before :: "char option \<Rightarrow> bool" where
  "word_before None = False"
| "word_before (Some c) = is_word c"

fun word_after :: "string \<Rightarrow> bool" where
  "word_after [] = False"
| "word_after (c # cs) = is_word c"

definition boundary :: "char option \<Rightarrow> string \<Rightarrow> bool" where
  "boundary prev rest = (word_before prev \<noteq> word_after rest)"

text \<open>
  The group \<^verbatim>\<open>([A-Z]{lo,hi})\<close> followed by \<^verbatim>\<open>\b\<close>, for \<open>1 \<le> lo\<close>. The quantifier is
  greedy and backtracks: the longest run of at most \<open>hi\<close> capitals is tried first, then
  one capital fewer, down to \<open>lo\<close>; the first length after which \<^verbatim>\<open>\b\<close> holds is the
  capture's length. \<open>upper_run lo k s\<close> tries the lengths \<open>k, k - 1, \<dots>, lo\<close>.
\<close>

fun upper_run :: "nat \<Rightarrow> nat \<Rightarrow> string \<Rightarrow> nat option" where
  "upper_run lo 0 s = None"
| "upper_run lo (Suc k) s =
     (if Suc k < lo then None
      else if Suc k \<le> length s \<and> list_all is_upper (take (Suc k) s)
              \<and> boundary (Some (s ! k)) (drop (Suc k) s)
      then Some (Suc k)
      else upper_run lo k s)"

datatype regex = TICKER_RE | BARE_TICKER_RE

text \<open>
  One attempt to match at a position, given the character before it and the text from
  it on. \<^verbatim>\<open>TICKER_RE = /\$([A-Z]{1,5})\b/g\<close> and
  \<^verbatim>\<open>BARE_TICKER_RE = /\b([A-Z]{2,5})\b/g\<close>. The result is the capture \<^verbatim>\<open>m[1]\<close> and the
  length of the whole match.
\<close>

fun exec_at :: "regex \<Rightarrow> char option \<Rightarrow> string \<Rightarrow> (string \<times> nat) option" where
  "exec_at TICKER_RE prev s =
     (case s of
        [] \<Rightarrow> None
      | c # cs \<Rightarrow>
          if c = CHR ''$''
          then (case upper_run 1 5 cs of None \<Rightarrow> None | Some k \<Rightarrow> Some (take k cs, Suc k))
          else None)"
| "exec_at BARE_TICKER_RE prev s =
     (if boundary prev s
      then (case upper_run 2 5 s of None \<Rightarrow> None | Some k \<Rightarrow> Some (take k s, k))
      else None)"

text \<open>
  \<^verbatim>\<open>text.matchAll(re)\<close> for a global expression: after a match the search resumes at its
  end (\<^verbatim>\<open>lastIndex\<close>), otherwise one character further. The list holds the captures
  \<^verbatim>\<open>m[1]\<close> in order.
\<close>

function matchAll :: "regex \<Rightarrow> char option \<Rightarrow> string \<Rightarrow> string list" where
  "matchAll re prev s =
     (case exec_at re prev s of
        Some (cap, n) \<Rightarrow> cap # matchAll re (Some (s ! (n - 1))) (drop n s)
      | None \<Rightarrow> (case s of [] \<Rightarrow> [] | c # cs \<Rightarrow> matchAll re (Some c) cs))"
  by pat_completeness auto
termination
proof (relation "measure (\<lambda>(re, prev, s). length s)")
  show "wf (measure (\<lambda>(re, prev, s). length s))" by simp
next
  fix re :: regex and prev :: "char option" and s :: string and x2 cap n
  assume m: "exec_at re prev s = Some x2" and x2: "(cap, n) = x2"
  have run: "upper_run lo k t = Some j \<Longrightarrow> 0 < j \<and> j \<le> length t" for lo k t j
    by (induction k) (auto split: if_splits)
  from m x2 have "0 < n \<and> n \<le> length s"
    by (cases re) (auto split: list.splits if_splits option.splits dest: run)
  then show "((re, Some (s ! (n - 1)), drop n s), (re, prev, s)) \<in> measure (\<lambda>(re, prev, s). length s)"
    by auto
next
  fix re :: regex and prev :: "char option" and s :: string and c cs
  assume "s = c # cs"
  then show "((re, Some c, cs), (re, prev, s)) \<in> measure (\<lambda>(re, prev, s). length s)"
    by simp
qed

declare matchAll.simps [simp del]

subsection \<open>extractTickers\<close>

text \<open>
  \<^verbatim>\<open>tickers.add(m)\<close> on a JavaScript \<^verbatim>\<open>Set\<close>, which iterates in insertion order: the
  list stays free of duplicates and a new element goes last.
\<close>

definition set_add :: "'a \<Rightarrow> 'a list \<Rightarrow> 'a list" where
  "set_add x xs = (if x \<in> set xs then xs else xs @ [x])"

text \<open>The body of both loops: \<^verbatim>\<open>if (!FALSE_POSITIVES.has(m[1])) tickers.add(m[1])\<close>.\<close>

definition keep_new :: "string list \<Rightarrow> string \<Rightarrow> string list" where
  "keep_new tickers m = (if m \<in> set FALSE_POSITIVES then tickers else set_add m tickers)"

definition extractTickers :: "string \<Rightarrow> string list" where
  "extractTickers text =
     (let tickers = foldl keep_new [] (matchAll TICKER_RE None text)
      in foldl keep_new tickers (matchAll BARE_TICKER_RE None text))"

text \<open>The shape \<^verbatim>\<open>/^[A-Z]{1,5}$/\<close>.\<close>

definition ticker_shape :: "string \<Rightarrow> bool" where
  "ticker_shape w = (1 \<le> length w \<and> length w \<le> 5 \<and> list_all is_upper w)"

subsection \<open>Binary64 arithmetic\<close>

text \<open>
  A JavaScript number is a binary64 value: 53 significant bits, exponents from \<open>-1022\<close>
  to \<open>1023\<close>, subnormal numbers in steps of \<open>2 powi (- 1074)\<close>. The result of a product, of
  a sum and of reading a decimal literal is the exact result rounded to the nearest such
  value, a tie going to the even significand.

  \<open>rne\<close> rounds to the nearest integer, a tie going to the even one.
\<close>

definition rne :: "rat \<Rightarrow> int" where
  "rne y =
     (let f = \<lfloor>y\<rfloor>; d = y - of_int f
      in if d < 1 / 2 then f else if 1 / 2 < d then f + 1 else if even f then f else f + 1)"

text \<open>
  The binary exponent of \<open>x \<noteq> 0\<close>, the \<open>e\<close> with \<open>2 powi e \<le> \<bar>x\<bar> < 2 powi (e + 1)\<close>:
  the difference of the bit lengths of numerator and denominator, or one less.
\<close>

definition exponent :: "rat \<Rightarrow> int" where
  "exponent x =
     (let (a, b) = quotient_of \<bar>x\<bar>; d = bitlen a - bitlen b
      in if 2 powi d \<le> \<bar>x\<bar> then d else d - 1)"

text \<open>
  Rounding to binary64: \<open>x\<close> is rounded to a multiple of \<open>2 powi q\<close>, where \<open>q\<close> is 52
  below the exponent of \<open>x\<close>, and \<open>-1074\<close> for a subnormal \<open>x\<close>. The exponent is not bounded
  above: a result of \<open>2 ^ 1024\<close> or more stands for an infinity. In the code modelled here
  such a result can only come from a product by 100 that is handed to \<^verbatim>\<open>toFixed\<close>.
\<close>

definition fl64 :: "rat \<Rightarrow> rat" where
  "fl64 x =
     (if x = 0 then 0
      else let q = max (exponent x) (- 1022) - 52
           in of_int (rne (x / 2 powi q)) * 2 powi q)"

text \<open>The operators \<^verbatim>\<open>*\<close> and \<^verbatim>\<open>+\<close> on numbers.\<close>

definition fmul :: "rat \<Rightarrow> rat \<Rightarrow> rat" where
  "fmul x y = fl64 (x * y)"

definition fadd :: "rat \<Rightarrow> rat \<Rightarrow> rat" where
  "fadd x y = fl64 (x + y)"

subsection \<open>Mention aggregation and ranking\<close>

text \<open>
  \<^verbatim>\<open>x || d\<close> for a number or a string that may be missing: the default also replaces
  a value that is falsy, that is \<open>0\<close> or the empty string.
\<close>

definition or_num :: "'a::zero option \<Rightarrow> 'a \<Rightarrow> 'a" where
  "or_num x d = (case x of None \<Rightarrow> d | Some v \<Rightarrow> if v = 0 then d else v)"

definition or_str :: "string option \<Rightarrow> string \<Rightarrow> string" where
  "or_str x d = (case x of None \<Rightarrow> d | Some v \<Rightarrow> if v = [] then d else v)"

text \<open>
  One feed item \<^verbatim>\<open>child.data\<close>, with the fields the code reads. A child without
  \<^verbatim>\<open>data\<close> is \<open>None\<close> in the list of children.
\<close>

record post =
  title :: "string option"
  selftext :: "string option"
  score :: "int option"
  num_comments :: "int option"
  stickied :: bool

record mention =
  ticker :: string
  mention_count :: int
  total_score :: int
  total_comments :: int

text \<open>The spread \<^verbatim>\<open>{ ...t, weighted_score: \<dots> }\<close> extends the record by one field.\<close>

record ranked = mention +
  weighted_score :: rat

text \<open>
  \<^verbatim>\<open>mentions\<close> is an object keyed by ticker. Its keys are runs of capitals, so
  \<^verbatim>\<open>Object.values\<close> lists it in insertion order: an association list, where
  \<open>AList.update\<close> replaces a key in place and puts a new key last.

  The body of the inner loop, for one ticker of one post: create the entry with zero
  counts if it is missing, then add to the three counts. The counts are integers, and
  sums of integers are exact in binary64 up to \<open>2 ^ 53\<close>.
\<close>

definition count_mention :: "post \<Rightarrow> (string \<times> mention) list \<Rightarrow> string \<Rightarrow> (string \<times> mention) list" where
  "count_mention p mentions tk =
     (let m = (case map_of mentions tk of
                 None \<Rightarrow> \<lparr>ticker = tk, mention_count = 0, total_score = 0, total_comments = 0\<rparr>
               | Some m \<Rightarrow> m)
      in AList.update tk
           (m\<lparr>mention_count := mention_count m + 1,
              total_score := total_score m + or_num (post.score p) 0,
              total_comments := total_comments m + or_num (num_comments p) 0\<rparr>)
           mentions)"

text \<open>
  The body of the outer loop:
  \<^verbatim>\<open>if (!post || post.stickied) continue\<close>, then the tickers of
  \<^verbatim>\<open>`${post.title || ''} ${post.selftext || ''}`\<close>.
\<close>

definition count_post :: "(string \<times> mention) list \<Rightarrow> post option \<Rightarrow> (string \<times> mention) list" where
  "count_post mentions child =
     (case child of
        None \<Rightarrow> mentions
      | Some p \<Rightarrow>
          if stickied p then mentions
          else foldl (count_mention p) mentions
                 (extractTickers (or_str (title p) '''' @ '' '' @ or_str (selftext p) '''')))"

definition aggregate :: "post option list \<Rightarrow> (string \<times> mention) list" where
  "aggregate children = foldl count_post [] children"

text \<open>
  \<^verbatim>\<open>t.mention_count * 3 + t.total_score * 0.01 + t.total_comments * 0.05\<close>, each
  product and each sum rounded, the sums taken from the left.
\<close>

definition with_weight :: "mention \<Rightarrow> ranked" where
  "with_weight t =
     \<lparr>ticker = ticker t, mention_count = mention_count t, total_score = total_score t,
      total_comments = total_comments t,
      weighted_score =
        fadd (fadd (fmul (of_int (mention_count t)) 3)
                (fmul (of_int (total_score t)) (fl64 (1 / 100))))
          (fmul (of_int (total_comments t)) (fl64 (5 / 100)))\<rparr>"

text \<open>
  \<^verbatim>\<open>Object.values(mentions).map(\<dots>).sort((a, b) => b.weighted_score - a.weighted_score).slice(0, 20)\<close>.
  \<^verbatim>\<open>Array.prototype.sort\<close> is stable, and so is the insertion sort \<open>sort_key\<close>;
  descending order is ascending order of the negated key. The rounded difference of two
  binary64 values has the sign of the exact one.
\<close>

definition rank :: "(string \<times> mention) list \<Rightarrow> ranked list" where
  "rank mentions = take 20 (sort_key (\<lambda>t. - weighted_score t) (map with_weight (map snd mentions)))"

subsection \<open>The upstream response\<close>

text \<open>
  What \<^verbatim>\<open>await fetch(\<dots>)\<close> gives: \<open>Inl msg\<close> when it throws, otherwise a response with
  \<^verbatim>\<open>ok\<close>, \<^verbatim>\<open>status\<close> and the outcome of \<^verbatim>\<open>resp.json()\<close>, which throws too or
  gives \<^verbatim>\<open>data?.data?.children\<close> (\<open>None\<close> when that is missing).
\<close>

record upstream =
  ok :: bool
  status :: nat
  json :: "string + post option list option"

definition children_of :: "post option list option \<Rightarrow> post option list" where
  "children_of data = (case data of None \<Rightarrow> [] | Some children \<Rightarrow> children)"

text \<open>A natural number in decimal, as a template literal prints it.\<close>

definition digit_char :: "nat \<Rightarrow> char" where
  "digit_char n = ''0123456789'' ! (n mod 10)"

function show_nat :: "nat \<Rightarrow> string" where
  "show_nat n = (if n < 10 then [digit_char n] else show_nat (n div 10) @ [digit_char n])"
  by pat_completeness auto
termination
  by (relation "measure id") auto

declare show_nat.simps [simp del]

subsection \<open>The edge handler of \<^verbatim>\<open>api/trending.js\<close>\<close>

text \<open>
  The \<^verbatim>\<open>Response\<close>: its status and the object that is serialised as its body. Both
  headers are the same on every path and are left out.
\<close>

record response =
  status :: nat
  tickers :: "ranked list"
  error :: "string option"

definition handler :: "string + upstream \<Rightarrow> response" where
  "handler fetched =
     (case fetched of
        Inl msg \<Rightarrow> \<lparr>status = 200, tickers = [], error = Some msg\<rparr>
      | Inr resp \<Rightarrow>
          if \<not> ok resp
          then \<lparr>status = 200, tickers = [],
                error = Some (''Reddit returned '' @ show_nat (upstream.status resp))\<rparr>
          else (case json resp of
                  Inl msg \<Rightarrow> \<lparr>status = 200, tickers = [], error = Some msg\<rparr>
                | Inr data \<Rightarrow>
                    \<lparr>status = 200, tickers = rank (aggregate (children_of data)),
                     error = None\<rparr>))"

subsection \<open>\<^verbatim>\<open>fetchTrending\<close> of \<^verbatim>\<open>src/api.js\<close>\<close>

text \<open>
  The same aggregation in the browser; a response that is not \<^verbatim>\<open>ok\<close> throws. The
  dash of the two messages that have one is written as the three bytes of its UTF-8 form.
\<close>

definition em_dash :: string where
  "em_dash = [CHR 0xE2, CHR 0x80, CHR 0x94]"

definition fetchTrending :: "string + upstream \<Rightarrow> string + ranked list" where
  "fetchTrending fetched =
     (case fetched of
        Inl msg \<Rightarrow> Inl msg
      | Inr res \<Rightarrow>
          if \<not> ok res
          then Inl (''Reddit returned an error '' @ em_dash @ '' try again in a moment'')
          else (case json res of
                  Inl msg \<Rightarrow> Inl msg
                | Inr data \<Rightarrow> Inr (rank (aggregate (children_of data)))))"

subsection \<open>Numbers as text\<close>

text \<open>
  \<^verbatim>\<open>Math.round\<close>: the nearest integer, a tie going up.
\<close>

definition Math_round :: "rat \<Rightarrow> int" where
  "Math_round x = \<lfloor>x + 1 / 2\<rfloor>"

text \<open>
  \<^verbatim>\<open>x.toFixed(d)\<close> as ECMAScript defines it on the exact value of \<open>x\<close>: the sign is
  split off; the integer \<open>n\<close> nearest to \<open>\<bar>x\<bar> * 10 ^ d\<close> (the larger one on a tie) is
  printed in decimal, padded with zeros to \<open>d + 1\<close> digits, and the point goes before the
  last \<open>d\<close> digits. From \<open>10 ^ 21\<close> on, the result is instead the number's own
  \<^verbatim>\<open>toString\<close>: exponent notation with the shortest digits that read back as the same
  binary64 value, and \<^verbatim>\<open>Infinity\<close> for an infinity. That conversion is a parameter
  \<open>num_string\<close> of the model.
\<close>

definition toFixed :: "(rat \<Rightarrow> string) \<Rightarrow> nat \<Rightarrow> rat \<Rightarrow> string" where
  "toFixed num_string d x =
     (let s = (if x < 0 then ''-'' else '''');
          a = \<bar>x\<bar>
      in if 10 ^ 21 \<le> a then s @ num_string a
         else
           let n = nat \<lfloor>a * 10 ^ d + 1 / 2\<rfloor>;
               m = show_nat n;
               m = (if d \<noteq> 0 \<and> length m \<le> d then replicate (d + 1 - length m) CHR ''0'' @ m else m);
               k = length m
           in if d = 0 then s @ m else s @ take (k - d) m @ ''.'' @ drop (k - d) m)"

text \<open>\<^verbatim>\<open>parts.join(sep)\<close>.\<close>

fun join :: "string \<Rightarrow> string list \<Rightarrow> string" where
  "join sep [] = ''''"
| "join sep [x] = x"
| "join sep (x # y # ys) = x @ sep @ join sep (y # ys)"

subsection \<open>Recommendation synthesis (\<^verbatim>\<open>runAnalysis\<close>, the body of the inner \<^verbatim>\<open>try\<close>)\<close>

text \<open>
  The three metric bundles, with the fields the synthesis reads. The empty object of
  \<^verbatim>\<open>detail.fundamental || {}\<close> has every field missing.
\<close>

record fundamental =
  score :: "rat option"
  trailing_pe :: "rat option"
  revenue_growth_yoy :: "rat option"
  debt_to_equity :: "rat option"
  dcf_upside_pct :: "rat option"

record technical =
  score :: "rat option"
  trend_signal :: "string option"

record risk =
  score :: "rat option"
  sharpe_ratio :: "rat option"
  volatility_annual :: "rat option"
  max_drawdown :: "rat option"

definition no_fundamental :: fundamental where
  "no_fundamental =
     \<lparr>fundamental.score = None, trailing_pe = None, revenue_growth_yoy = None, debt_to_equity = None,
      dcf_upside_pct = None\<rparr>"

definition no_technical :: technical where
  "no_technical = \<lparr>technical.score = None, trend_signal = None\<rparr>"

definition no_risk :: risk where
  "no_risk = \<lparr>risk.score = None, sharpe_ratio = None, volatility_annual = None, max_drawdown = None\<rparr>"

text \<open>
  The composite score: \<^verbatim>\<open>Math.round((f.score || 50) * 0.35 + (t.score || 50) * 0.25
  + (r.score || 50) * 0.20 + 50 * 0.20)\<close>, each product and each sum rounded, the sums
  taken from the left.
\<close>

definition composite :: "fundamental \<Rightarrow> technical \<Rightarrow> risk \<Rightarrow> int" where
  "composite f t r =
     Math_round
       (fadd
          (fadd
             (fadd (fmul (or_num (fundamental.score f) 50) (fl64 (35 / 100)))
                (fmul (or_num (technical.score t) 50) (fl64 (25 / 100))))
             (fmul (or_num (risk.score r) 50) (fl64 (20 / 100))))
          (fmul 50 (fl64 (20 / 100))))"

text \<open>The signal: \<^verbatim>\<open>let signal = 'hold'\<close> and the chain of four \<^verbatim>\<open>if\<close>s.\<close>

datatype signal = strong_buy | buy | hold | sell | strong_sell

definition signal_of :: "int \<Rightarrow> signal" where
  "signal_of c =
     (if c \<ge> 75 then strong_buy
      else if c \<ge> 60 then buy
      else if c \<le> 25 then strong_sell
      else if c \<le> 40 then sell
      else hold)"

text \<open>
  \<^verbatim>\<open>if (x && P(x)) list.push(text(x))\<close> for a number \<open>x\<close> that may be missing: nothing
  is pushed when \<open>x\<close> is missing or \<open>0\<close>.
\<close>

definition push_when :: "rat option \<Rightarrow> (rat \<Rightarrow> bool) \<Rightarrow> (rat \<Rightarrow> string) \<Rightarrow> string list" where
  "push_when x P txt = (case x of None \<Rightarrow> [] | Some v \<Rightarrow> if v \<noteq> 0 \<and> P v then [txt v] else [])"

text \<open>The clauses of the thesis, \<^verbatim>\<open>parts\<close>.\<close>

definition parts :: "(rat \<Rightarrow> string) \<Rightarrow> fundamental \<Rightarrow> technical \<Rightarrow> risk \<Rightarrow> string list" where
  "parts num_string f t r =
     push_when (trailing_pe f) (\<lambda>v. True) (\<lambda>v. ''P/E '' @ toFixed num_string 1 v)
     @ (case revenue_growth_yoy f of
          None \<Rightarrow> []
        | Some g \<Rightarrow>
            [''revenue '' @ (if g > 0 then ''growing'' else ''declining'') @ '' ''
               @ toFixed num_string 1 \<bar>fmul g 100\<bar> @ ''% YoY''])
     @ (case trend_signal t of
          None \<Rightarrow> []
        | Some sg \<Rightarrow> if sg = [] then [] else [sg @ '' trend''])
     @ (case sharpe_ratio r of
          None \<Rightarrow> []
        | Some sh \<Rightarrow> [''Sharpe '' @ toFixed num_string 2 sh])"

definition thesis :: "(rat \<Rightarrow> string) \<Rightarrow> string \<Rightarrow> fundamental \<Rightarrow> technical \<Rightarrow> risk \<Rightarrow> string" where
  "thesis num_string tk f t r =
     (if length (parts num_string f t r) > 0
      then tk @ '': '' @ join '', '' (parts num_string f t r) @ ''.''
      else tk @ '': Limited data available.'')"

definition flags :: "(rat \<Rightarrow> string) \<Rightarrow> fundamental \<Rightarrow> risk \<Rightarrow> string list" where
  "flags num_string f r =
     push_when (trailing_pe f) (\<lambda>v. v > 50) (\<lambda>v. ''Extreme valuation'')
     @ push_when (debt_to_equity f) (\<lambda>v. v > 3) (\<lambda>v. ''Heavy debt'')
     @ push_when (volatility_annual r) (\<lambda>v. v > fl64 (5 / 10)) (\<lambda>v. ''High volatility'')
     @ push_when (max_drawdown r) (\<lambda>v. v < - fl64 (3 / 10))
         (\<lambda>v. toFixed num_string 0 (fmul v 100) @ ''% max drawdown'')"

definition bull :: "(rat \<Rightarrow> string) \<Rightarrow> fundamental \<Rightarrow> technical \<Rightarrow> string list" where
  "bull num_string f t =
     push_when (dcf_upside_pct f) (\<lambda>v. v > 0)
         (\<lambda>v. ''DCF suggests '' @ toFixed num_string 0 (fmul v 100) @ ''% upside'')
     @ push_when (revenue_growth_yoy f) (\<lambda>v. v > fl64 (1 / 10)) (\<lambda>v. ''Strong revenue growth'')
     @ (if trend_signal t = Some ''bullish'' then [''Bullish technicals''] else [])"

definition bear :: "(rat \<Rightarrow> string) \<Rightarrow> fundamental \<Rightarrow> technical \<Rightarrow> risk \<Rightarrow> string list" where
  "bear num_string f t r =
     push_when (trailing_pe f) (\<lambda>v. v > 40)
         (\<lambda>v. ''Expensive (P/E '' @ toFixed num_string 0 v @ '')'')
     @ (if trend_signal t = Some ''bearish'' then [''Bearish technicals''] else [])
     @ push_when (volatility_annual r) (\<lambda>v. v > fl64 (5 / 10)) (\<lambda>v. ''Very volatile'')"

text \<open>
  The object \<^verbatim>\<open>rec\<close>. \<^verbatim>\<open>info\<close> and \<^verbatim>\<open>price_history\<close> are copied from the
  provider's answer unread and are left out.
\<close>

record recommendation =
  ticker :: string
  signal :: signal
  score :: int
  investment_thesis :: string
  bull_case :: string
  bear_case :: string
  risk_flags :: "string list"
  fundamental :: fundamental
  technical :: technical
  risk :: risk
  wsb_mention_rank :: nat

definition synthesize ::
  "(rat \<Rightarrow> string) \<Rightarrow> string \<Rightarrow> nat \<Rightarrow> fundamental \<Rightarrow> technical \<Rightarrow> risk \<Rightarrow> recommendation" where
  "synthesize num_string tk i f t r =
     \<lparr>ticker = tk,
      signal = signal_of (composite f t r),
      score = composite f t r,
      investment_thesis = thesis num_string tk f t r,
      bull_case = or_str (Some (join ''. '' (bull num_string f t))) ''Limited bullish signals.'',
      bear_case = or_str (Some (join ''. '' (bear num_string f t r))) ''Limited bearish signals.'',
      risk_flags = flags num_string f r,
      fundamental = f,
      technical = t,
      risk = r,
      wsb_mention_rank = i + 1\<rparr>"

subsection \<open>The per-ticker loop of \<^verbatim>\<open>runAnalysis\<close>\<close>

text \<open>
  The provider's answer \<^verbatim>\<open>detail\<close>; each bundle may be missing.
\<close>

record detail =
  fundamental :: "fundamental option"
  technical :: "technical option"
  risk :: "risk option"

text \<open>
  The outcome of \<^verbatim>\<open>await fetchStockDetail(ticker)\<close>: \<open>Inl msg\<close> when it throws,
  \<open>Inr None\<close> when the answer is the JSON value \<^verbatim>\<open>null\<close>, \<open>Inr (Some d)\<close> otherwise.
  Reading \<^verbatim>\<open>detail.fundamental\<close> of \<^verbatim>\<open>null\<close> throws a \<^verbatim>\<open>TypeError\<close>; its message is
  the engine's, here V8's.
\<close>

definition null_detail_message :: string where
  "null_detail_message = ''Cannot read properties of null (reading 'fundamental')''"

text \<open>
  The body of the inner \<^verbatim>\<open>try\<close> for the ticker at index \<open>i\<close>: \<open>Inl\<close> is the
  exception that reaches the inner \<^verbatim>\<open>catch\<close>, \<open>Inr\<close> the object \<^verbatim>\<open>rec\<close>.
\<close>

definition analyse ::
  "(rat \<Rightarrow> string) \<Rightarrow> nat \<Rightarrow> string \<Rightarrow> string + detail option \<Rightarrow> string + recommendation" where
  "analyse num_string i tk fetched =
     (case fetched of
        Inl msg \<Rightarrow> Inl msg
      | Inr None \<Rightarrow> Inl null_detail_message
      | Inr (Some d) \<Rightarrow>
          Inr (synthesize num_string tk i
                 (case detail.fundamental d of None \<Rightarrow> no_fundamental | Some f \<Rightarrow> f)
                 (case detail.technical d of None \<Rightarrow> no_technical | Some t \<Rightarrow> t)
                 (case detail.risk d of None \<Rightarrow> no_risk | Some r \<Rightarrow> r)))"

text \<open>
  The component's state, and the log of \<^verbatim>\<open>console.warn\<close> (ticker and message).
  \<^verbatim>\<open>stocks\<close> is an object keyed by ticker, an association list as \<^verbatim>\<open>mentions\<close> is.
\<close>

record app =
  trending :: "ranked list"
  stocks :: "(string \<times> recommendation) list"
  loading :: bool
  progress :: string
  error :: "string option"
  warned :: "(string \<times> string) list"

text \<open>
  The \<^verbatim>\<open>for\<close> loop from index \<open>i\<close> on, over the tickers still to do; \<open>n\<close> is
  \<^verbatim>\<open>tickers.length\<close>. The provider is called once per ticker: \<open>fetchStockDetail i tk\<close> is
  the outcome of the call made at index \<open>i\<close>.
\<close>

fun analyse_from ::
  "(rat \<Rightarrow> string) \<Rightarrow> (nat \<Rightarrow> string \<Rightarrow> string + detail option) \<Rightarrow> nat \<Rightarrow> nat \<Rightarrow> ranked list
     \<Rightarrow> app \<Rightarrow> app" where
  "analyse_from num_string fetchStockDetail n i [] st = st"
| "analyse_from num_string fetchStockDetail n i (t # rest) st =
     (let tk = mention.ticker t;
          st = st\<lparr>progress := ''Analyzing '' @ tk @ ''... ('' @ show_nat (i + 1) @ ''/''
                               @ show_nat n @ '')''\<rparr>
      in case analyse num_string i tk (fetchStockDetail i tk) of
           Inr rec \<Rightarrow>
             analyse_from num_string fetchStockDetail n (i + 1) rest
               (st\<lparr>stocks := AList.update tk rec (stocks st)\<rparr>)
         | Inl msg \<Rightarrow>
             analyse_from num_string fetchStockDetail n (i + 1) rest
               (st\<lparr>warned := warned st @ [(tk, msg)]\<rparr>))"

text \<open>
  \<^verbatim>\<open>runAnalysis\<close>. \<open>trend\<close> is the outcome of \<^verbatim>\<open>await fetchTrending('day')\<close>:
  \<open>Inl msg\<close> when it throws, otherwise \<^verbatim>\<open>data.tickers\<close> (\<open>None\<close> when missing).
\<close>

definition runAnalysis ::
  "(rat \<Rightarrow> string) \<Rightarrow> string + ranked list option
     \<Rightarrow> (nat \<Rightarrow> string \<Rightarrow> string + detail option) \<Rightarrow> app \<Rightarrow> app" where
  "runAnalysis num_string trend fetchStockDetail st0 =
     (let st = st0\<lparr>loading := True, error := None, stocks := [], trending := [],
                   progress := ''Scanning r/WallStreetBets for trending stocks...''\<rparr>
      in case trend of
           Inl msg \<Rightarrow> st\<lparr>error := Some msg, loading := False\<rparr>
         | Inr data \<Rightarrow>
             let tickers = take 8 (case data of None \<Rightarrow> [] | Some ts \<Rightarrow> ts);
                 st = st\<lparr>trending := tickers\<rparr>
             in if length tickers = 0
                then st\<lparr>error := Some (''No trending tickers found. Reddit may be rate-limiting ''
                                         @ em_dash @ '' try again in a minute.''),
                        loading := False\<rparr>
                else (analyse_from num_string fetchStockDetail (length tickers) 0 tickers st)
                       \<lparr>progress := '''', loading := False\<rparr>)"

text \<open>
  What is rendered: \<^verbatim>\<open>Object.values(stocks).sort((a, b) => b.score - a.score)\<close>.
\<close>

definition recommendations :: "app \<Rightarrow> recommendation list" where
  "recommendations st = sort_key (\<lambda>a. - recommendation.score a) (map snd (stocks st))"

text \<open>
  The composite score as the specification words it, with \<^verbatim>\<open>??\<close>: the default stands
  in only for a missing score. The arithmetic is that of the code.
\<close>

definition nullish :: "'a option \<Rightarrow> 'a \<Rightarrow> 'a" where
  "nullish x d = (case x of None \<Rightarrow> d | Some v \<Rightarrow> v)"

definition spec_composite :: "fundamental \<Rightarrow> technical \<Rightarrow> risk \<Rightarrow> int" where
  "spec_composite f t r =
     Math_round
       (fadd
          (fadd
             (fadd (fmul (nullish (fundamental.score f) 50) (fl64 (35 / 100)))
                (fmul (nullish (technical.score t) 50) (fl64 (25 / 100))))
             (fmul (nullish (risk.score r) 50) (fl64 (20 / 100))))
          (fmul 50 (fl64 (20 / 100))))"

text \<open>
  Replacing a score of \<open>0\<close> by a missing one, to compare the code's score with the
  specification's.
\<close>

definition zero_as_null :: "rat option \<Rightarrow> rat option" where
  "zero_as_null x = (if x = Some 0 then None else x)"

text \<open>A score as the \<^verbatim>\<open>MetricBundle\<close> schema allows it: missing, or from \<open>0\<close> to \<open>100\<close>.\<close>

definition score_in_schema :: "rat option \<Rightarrow> bool" where
  "score_in_schema x = (case x of None \<Rightarrow> True | Some v \<Rightarrow> 0 \<le> v \<and> v \<le> 100)"

text \<open>
  Two recommendations agree on the fields of the specification's \<^verbatim>\<open>Recommendation\<close>:
  everything but the three bundles that \<^verbatim>\<open>rec\<close> carries along.
\<close>

definition same_recommendation :: "recommendation \<Rightarrow> recommendation \<Rightarrow> bool" where
  "same_recommendation a b =
     (recommendation.ticker a = recommendation.ticker b
      \<and> signal a = signal b
      \<and> recommendation.score a = recommendation.score b
      \<and> investment_thesis a = investment_thesis b
      \<and> bull_case a = bull_case b
      \<and> bear_case a = bear_case b
      \<and> risk_flags a = risk_flags b
      \<and> wsb_mention_rank a = wsb_mention_rank b)"

text \<open>
  The formula of the weighted score, read off a ranked entry, and the clause of the thesis
  for a revenue growth \<open>g\<close>.
\<close>

definition weighted_formula :: "ranked \<Rightarrow> rat" where
  "weighted_formula t =
     fadd (fadd (fmul (of_int (mention_count t)) 3)
             (fmul (of_int (total_score t)) (fl64 (1 / 100))))
       (fmul (of_int (total_comments t)) (fl64 (5 / 100)))"


text \<open>
  The iteration at index \<open>i\<close> of the loop over the tickers \<open>tks\<close> ends in the inner
  \<^verbatim>\<open>catch\<close>: the provider's call or the synthesis threw.
\<close>

definition skipped_at ::
  "(rat \<Rightarrow> string) \<Rightarrow> (nat \<Rightarrow> string \<Rightarrow> string + detail option) \<Rightarrow> ranked list \<Rightarrow> nat \<Rightarrow> bool" where
  "skipped_at num_string fetchStockDetail tks i =
     isl (analyse num_string i (mention.ticker (tks ! i))
            (fetchStockDetail i (mention.ticker (tks ! i))))"

text \<open>The tickers of the recommendations that are rendered.\<close>

definition recommended :: "app \<Rightarrow> string set" where
  "recommended st = recommendation.ticker ` set (recommendations st)"

text \<open>Every entry of \<^verbatim>\<open>stocks\<close> sits under the ticker it carries.\<close>

definition keyed :: "(string \<times> recommendation) list \<Rightarrow> bool" where
  "keyed al = (\<forall>(k, rec) \<in> set al. recommendation.ticker rec = k)"

subsection \<open>Concrete inputs for the examples\<close>

text \<open>
  A feed of five children: three posts that mention \<^verbatim>\<open>GME\<close> (with 100 upvotes each and
  20, 20 and 10 comments), a child without data, and a pinned post.
\<close>

definition example_children :: "post option list" where
  "example_children =
     [Some \<lparr>title = Some ''$GME to the moon'', selftext = Some ''GME and TSLA'',
            post.score = Some 100, num_comments = Some 20, stickied = False\<rparr>,
      None,
      Some \<lparr>title = Some ''GME again'', selftext = None,
            post.score = Some 100, num_comments = Some 20, stickied = False\<rparr>,
      Some \<lparr>title = Some ''GME GME'', selftext = Some ''NVDA'',
            post.score = Some 100, num_comments = Some 10, stickied = False\<rparr>,
      Some \<lparr>title = Some ''AMC'', selftext = Some ''pinned'',
            post.score = Some 100, num_comments = Some 10, stickied = True\<rparr>]"

definition example_upstream :: upstream where
  "example_upstream = \<lparr>ok = True, upstream.status = 200, json = Inr (Some example_children)\<rparr>"

definition example_gme :: ranked where
  "example_gme =
     \<lparr>mention.ticker = ''GME'', mention_count = 3, total_score = 300, total_comments = 50,
      weighted_score = 29 / 2\<rparr>"

definition example_ranked :: "ranked list" where
  "example_ranked =
     [example_gme,
      \<lparr>mention.ticker = ''TSLA'', mention_count = 1, total_score = 100, total_comments = 20,
       weighted_score = 5\<rparr>,
      \<lparr>mention.ticker = ''NVDA'', mention_count = 1, total_score = 100, total_comments = 10,
       weighted_score = 9 / 2\<rparr>]"

text \<open>
  A provider that throws for \<^verbatim>\<open>GME\<close>, answers \<^verbatim>\<open>null\<close> for \<^verbatim>\<open>NVDA\<close> and an empty
  object for every other ticker; an initial state; a bundle whose scores and P/E are
  \<open>0\<close>. No number of the examples reaches \<open>10 ^ 21\<close>, so the exponent notation is never
  asked for.
\<close>

definition example_provider :: "nat \<Rightarrow> string \<Rightarrow> string + detail option" where
  "example_provider i tk =
     (if tk = ''GME'' then Inl ''Failed to analyze GME''
      else if tk = ''NVDA'' then Inr None
      else Inr (Some \<lparr>detail.fundamental = None, detail.technical = None, detail.risk = None\<rparr>))"

definition example_app :: app where
  "example_app =
     \<lparr>trending = [], stocks = [], loading = False, progress = '''', app.error = None,
      warned = []\<rparr>"

definition no_exponent :: "rat \<Rightarrow> string" where
  "no_exponent x = ''''"

definition zero_f :: fundamental where
  "zero_f =
     \<lparr>fundamental.score = Some 0, trailing_pe = Some 0, revenue_growth_yoy = Some (1 / 4),
      debt_to_equity = None, dcf_upside_pct = None\<rparr>"

definition zero_t :: technical where
  "zero_t = \<lparr>technical.score = Some 0, trend_signal = Some ''bullish''\<rparr>"

definition zero_r :: risk where
  "zero_r =
     \<lparr>risk.score = Some 0, sharpe_ratio = None, volatility_annual = None, max_drawdown = None\<rparr>"


section \<open>Properties\<close>

subsection \<open>Binary64 rounding\<close>

lemma rne_close: "\<bar>of_int (rne y) - y\<bar> \<le> 1 / 2"
proof -
  have "of_int \<lfloor>y\<rfloor> \<le> y" and "y < of_int \<lfloor>y\<rfloor> + 1" by linarith+
  then show ?thesis by (auto simp: rne_def Let_def)
qed

lemma rne_nonneg: "0 \<le> y \<Longrightarrow> 0 \<le> rne y"
  by (auto simp: rne_def Let_def)

lemma exponent_le:
  assumes "x \<noteq> 0"
  shows "2 powi exponent x \<le> \<bar>x\<bar>"
proof -
  obtain a b where q: "quotient_of \<bar>x\<bar> = (a, b)" by (cases "quotient_of \<bar>x\<bar>")
  then have b: "0 < b" by (rule quotient_of_denom_pos)
  from q have x: "\<bar>x\<bar> = of_int a / of_int b" by (rule quotient_of_div)
  from assms have "0 < \<bar>x\<bar>" by simp
  with x b have a: "0 < a" by (simp add: zero_less_divide_iff)
  let ?d = "bitlen a - bitlen b"
  show ?thesis
  proof (cases "2 powi ?d \<le> \<bar>x\<bar>")
    case True
    with q show ?thesis by (simp add: exponent_def)
  next
    case False
    with q have e: "exponent x = ?d - 1" by (simp add: exponent_def)
    from bitlen_bounds [OF a] have "(2::int) ^ nat (bitlen a - 1) \<le> a" by simp
    then have "of_int ((2::int) ^ nat (bitlen a - 1)) \<le> (of_int a :: rat)"
      by (simp only: of_int_le_iff)
    then have la: "(2::rat) ^ nat (bitlen a - 1) \<le> of_int a" by simp
    from bitlen_bounds [OF b] have "b < 2 ^ nat (bitlen b)" by simp
    then have "(of_int b :: rat) < of_int ((2::int) ^ nat (bitlen b))"
      by (simp only: of_int_less_iff)
    then have lb: "(of_int b :: rat) \<le> 2 ^ nat (bitlen b)" by simp
    from bitlen_bounds [OF a] a have ba: "1 \<le> bitlen a"
      by (smt (verit) bitlen_nonneg bitlen_eq_zero_iff)
    have "2 powi (?d - 1) = (2::rat) powi (bitlen a - 1) / 2 powi bitlen b"
      by (simp add: power_int_diff)
    also have "\<dots> = (2::rat) ^ nat (bitlen a - 1) / 2 ^ nat (bitlen b)"
      using ba bitlen_nonneg [of b] by (simp add: power_int_nonneg_exp)
    also have "\<dots> \<le> of_int a / of_int b"
      using la lb a b by (intro frac_le) auto
    finally show ?thesis using e x by simp
  qed
qed

lemma exponent_less:
  assumes "x \<noteq> 0"
  shows "\<bar>x\<bar> < 2 powi (exponent x + 1)"
proof -
  obtain a b where q: "quotient_of \<bar>x\<bar> = (a, b)" by (cases "quotient_of \<bar>x\<bar>")
  then have b: "0 < b" by (rule quotient_of_denom_pos)
  from q have x: "\<bar>x\<bar> = of_int a / of_int b" by (rule quotient_of_div)
  from assms have "0 < \<bar>x\<bar>" by simp
  with x b have a: "0 < a" by (simp add: zero_less_divide_iff)
  let ?d = "bitlen a - bitlen b"
  show ?thesis
  proof (cases "2 powi ?d \<le> \<bar>x\<bar>")
    case False
    with q show ?thesis by (simp add: exponent_def)
  next
    case True
    with q have e: "exponent x = ?d" by (simp add: exponent_def)
    from bitlen_bounds [OF a] have "a < 2 ^ nat (bitlen a)" by simp
    then have "(of_int a :: rat) < of_int ((2::int) ^ nat (bitlen a))"
      by (simp only: of_int_less_iff)
    then have la: "(of_int a :: rat) < 2 ^ nat (bitlen a)" by simp
    from bitlen_bounds [OF b] have "(2::int) ^ nat (bitlen b - 1) \<le> b" by simp
    then have "of_int ((2::int) ^ nat (bitlen b - 1)) \<le> (of_int b :: rat)"
      by (simp only: of_int_le_iff)
    then have lb: "(2::rat) ^ nat (bitlen b - 1) \<le> of_int b" by simp
    from bitlen_bounds [OF b] b have bb: "1 \<le> bitlen b"
      by (smt (verit) bitlen_nonneg bitlen_eq_zero_iff)
    have "of_int a / of_int b < (2::rat) ^ nat (bitlen a) / 2 ^ nat (bitlen b - 1)"
      using la lb a b by (intro frac_less) auto
    also have "\<dots> = (2::rat) powi bitlen a / 2 powi (bitlen b - 1)"
      using bb bitlen_nonneg [of a] by (simp add: power_int_nonneg_exp)
    also have "\<dots> = 2 powi (?d + 1)"
      by (simp add: power_int_diff [symmetric] algebra_simps)
    finally show ?thesis using e x by simp
  qed
qed

lemma fl64_nonneg: "0 \<le> x \<Longrightarrow> 0 \<le> fl64 x"
  by (auto simp: fl64_def Let_def intro!: mult_nonneg_nonneg rne_nonneg divide_nonneg_nonneg)

text \<open>Below 128 a rounding moves a value by at most \<open>2 powi (- 47)\<close>.\<close>

lemma fl64_close:
  assumes "\<bar>x\<bar> < 128"
  shows "\<bar>fl64 x - x\<bar> \<le> 1 / 1000000000000"
proof (cases "x = 0")
  case True
  then show ?thesis by (simp add: fl64_def)
next
  case False
  let ?q = "max (exponent x) (- 1022) - 52"
  let ?s = "(2::rat) powi ?q"
  have s: "0 < ?s" by simp
  have "exponent x < 7"
  proof (rule ccontr)
    assume "\<not> exponent x < 7"
    then have "(2::rat) powi 7 \<le> 2 powi exponent x"
      by (intro power_int_increasing) auto
    with exponent_le [OF False] assms show False by simp
  qed
  then have "?q \<le> - 46" by simp
  then have "?s \<le> 2 powi (- 46)" by (intro power_int_increasing) auto
  then have s46: "?s \<le> 1 / 2 ^ 46" by (simp add: power_int_minus_divide)
  have "fl64 x - x = (of_int (rne (x / ?s)) - x / ?s) * ?s"
    using False s by (simp add: fl64_def Let_def algebra_simps)
  then have "\<bar>fl64 x - x\<bar> = \<bar>of_int (rne (x / ?s)) - x / ?s\<bar> * ?s"
    using s by (simp add: abs_mult)
  also have "\<dots> \<le> 1 / 2 * ?s"
    using rne_close [of "x / ?s"] s by (intro mult_right_mono) auto
  also have "\<dots> \<le> 1 / 2 * (1 / 2 ^ 46)" using s46 by simp
  also have "\<dots> \<le> 1 / 1000000000000" by simp
  finally show ?thesis .
qed

lemma fl64_near:
  assumes "- 128 < x" and "x < 128"
  shows "x - 1 / 1000000000000 \<le> fl64 x \<and> fl64 x \<le> x + 1 / 1000000000000"
proof -
  from assms have "\<bar>x\<bar> < 128" by simp
  from fl64_close [OF this] show ?thesis by linarith
qed

text \<open>The literals \<^verbatim>\<open>0.35\<close>, \<^verbatim>\<open>0.25\<close> and \<^verbatim>\<open>0.20\<close> as binary64 values, and \<^verbatim>\<open>50 * 0.20\<close>.\<close>

lemma literal_035: "fl64 (35 / 100) = 3152519739159347 / 9007199254740992"
  by code_simp

lemma literal_025: "fl64 (25 / 100) = 1 / 4"
  by code_simp

lemma literal_020: "fl64 (20 / 100) = 3602879701896397 / 18014398509481984"
  by code_simp

lemma fifty_times_020: "fl64 (50 * (3602879701896397 / 18014398509481984)) = 10"
  by code_simp

subsection \<open>Extraction\<close>

lemma upper_run_bounds:
  "upper_run lo k s = Some n \<Longrightarrow> lo \<le> n \<and> n \<le> k \<and> 0 < n \<and> n \<le> length s"
  by (induction k) (auto split: if_splits)

lemma upper_run_upper:
  "upper_run lo k s = Some n \<Longrightarrow> list_all is_upper (take n s)"
  by (induction k) (auto split: if_splits)

lemma exec_at_shape:
  "exec_at re prev s = Some (cap, n) \<Longrightarrow> ticker_shape cap"
proof (cases re)
  case TICKER_RE
  assume m: "exec_at re prev s = Some (cap, n)"
  with TICKER_RE obtain c cs k where s: "s = c # cs" and k: "upper_run 1 5 cs = Some k"
    and cap: "cap = take k cs"
    by (auto split: list.splits if_splits option.splits)
  from upper_run_bounds [OF k] upper_run_upper [OF k] cap show ?thesis
    by (simp add: ticker_shape_def)
next
  case BARE_TICKER_RE
  assume m: "exec_at re prev s = Some (cap, n)"
  with BARE_TICKER_RE obtain k where k: "upper_run 2 5 s = Some k" and cap: "cap = take k s"
    by (auto split: if_splits option.splits)
  from upper_run_bounds [OF k] upper_run_upper [OF k] cap show ?thesis
    by (simp add: ticker_shape_def)
qed

lemma matchAll_Some:
  "exec_at re prev s = Some (cap, n)
     \<Longrightarrow> matchAll re prev s = cap # matchAll re (Some (s ! (n - 1))) (drop n s)"
  by (subst matchAll.simps) simp

lemma matchAll_None_Nil: "exec_at re prev [] = None \<Longrightarrow> matchAll re prev [] = []"
  by (subst matchAll.simps) simp

lemma matchAll_None_Cons:
  "exec_at re prev (c # cs) = None \<Longrightarrow> matchAll re prev (c # cs) = matchAll re (Some c) cs"
  by (subst matchAll.simps) simp

lemma matchAll_shape:
  "m \<in> set (matchAll re prev s) \<Longrightarrow> ticker_shape m"
proof (induction re prev s rule: matchAll.induct)
  case (1 re prev s)
  show ?case
  proof (cases "exec_at re prev s")
    case None
    show ?thesis
    proof (cases s)
      case Nil
      with None "1.prems" show ?thesis
        by (simp add: matchAll_None_Nil)
    next
      case (Cons c cs)
      with None "1.prems" have "m \<in> set (matchAll re (Some c) cs)"
        by (simp add: matchAll_None_Cons)
      with None Cons "1.IH" show ?thesis by blast
    qed
  next
    case (Some p)
    obtain cap n where p: "p = (cap, n)" by (cases p)
    with Some "1.prems" have "m = cap \<or> m \<in> set (matchAll re (Some (s ! (n - 1))) (drop n s))"
      by (simp add: matchAll_Some)
    with Some p "1.IH" exec_at_shape show ?thesis by blast
  qed
qed

lemma set_set_add: "set (set_add x xs) = insert x (set xs)"
  by (auto simp: set_add_def)

lemma distinct_set_add: "distinct xs \<Longrightarrow> distinct (set_add x xs)"
  by (simp add: set_add_def)

lemma set_foldl_keep_new:
  "set (foldl keep_new acc ms) = set acc \<union> (set ms - set FALSE_POSITIVES)"
  by (induction ms arbitrary: acc) (auto simp: keep_new_def set_set_add)

lemma distinct_foldl_keep_new:
  "distinct acc \<Longrightarrow> distinct (foldl keep_new acc ms)"
  by (induction ms arbitrary: acc) (auto simp: keep_new_def distinct_set_add)

lemma set_extractTickers:
  "set (extractTickers text) =
     (set (matchAll TICKER_RE None text) \<union> set (matchAll BARE_TICKER_RE None text))
       - set FALSE_POSITIVES"
  by (auto simp: extractTickers_def Let_def set_foldl_keep_new)

lemma distinct_extractTickers: "distinct (extractTickers text)"
  by (simp add: extractTickers_def Let_def distinct_foldl_keep_new)

text \<open>
  C8. Every ticker that \<open>extractTickers\<close> returns, for any text, has the shape
  \<^verbatim>\<open>/^[A-Z]{1,5}$/\<close> and is not a word of the lexicon.
\<close>

theorem extractTickers_shape_not_lexicon:
  "t \<in> set (extractTickers text) \<Longrightarrow> ticker_shape t \<and> t \<notin> set FALSE_POSITIVES"
  using matchAll_shape by (auto simp: set_extractTickers)

theorem extractTickers_shape_not_lexicon_witness:
  "''GME'' \<in> set (extractTickers ''$GME to the moon'')
   \<and> ticker_shape ''GME'' \<and> ''GME'' \<notin> set FALSE_POSITIVES"
proof -
  have h: "''GME'' \<in> set (extractTickers ''$GME to the moon'')" by code_simp
  from extractTickers_shape_not_lexicon [OF h] h show ?thesis by simp
qed

text \<open>
  C5, as stated, fails: the cashtag loop has the same lexicon guard as the bare loop. In
  the text \<^verbatim>\<open>$YOLO calls on $GME\<close> the cashtag pattern captures \<^verbatim>\<open>YOLO\<close>, a word of
  the lexicon, and \<open>extractTickers\<close> does not return it.
\<close>

theorem cashtag_in_lexicon_dropped:
  "''YOLO'' \<in> set (matchAll TICKER_RE None ''$YOLO calls on $GME'')
   \<and> ''YOLO'' \<notin> set (extractTickers ''$YOLO calls on $GME'')"
  by code_simp

text \<open>
  C5, amended. For every text, every capture of the cashtag pattern that is not a word of
  the lexicon is in the output of \<open>extractTickers\<close>.
\<close>

theorem cashtag_kept_unless_lexicon:
  "m \<in> set (matchAll TICKER_RE None text) \<Longrightarrow> m \<notin> set FALSE_POSITIVES
     \<Longrightarrow> m \<in> set (extractTickers text)"
  by (simp add: set_extractTickers)

theorem cashtag_kept_unless_lexicon_witness:
  "''GME'' \<in> set (matchAll TICKER_RE None ''$YOLO calls on $GME'')
   \<and> ''GME'' \<notin> set FALSE_POSITIVES
   \<and> ''GME'' \<in> set (extractTickers ''$YOLO calls on $GME'')"
proof -
  have h1: "''GME'' \<in> set (matchAll TICKER_RE None ''$YOLO calls on $GME'')" by code_simp
  have h2: "''GME'' \<notin> set FALSE_POSITIVES" by code_simp
  from cashtag_kept_unless_lexicon [OF h1 h2] h1 h2 show ?thesis by simp
qed

subsection \<open>The composite score and the signal\<close>

text \<open>
  C2. The signal is a function of the integer composite score alone, and its five bands
  partition the integers: \<open>strong_buy\<close> from 75 up, \<open>buy\<close> from 60 to 74, \<open>hold\<close> from
  41 to 59, \<open>sell\<close> from 26 to 40, \<open>strong_sell\<close> up to 25; the eight boundary values of
  the specification fall as it says.
\<close>

theorem signal_bands:
  "(signal_of c = strong_buy) = (75 \<le> c)
   \<and> (signal_of c = buy) = (60 \<le> c \<and> c \<le> 74)
   \<and> (signal_of c = hold) = (41 \<le> c \<and> c \<le> 59)
   \<and> (signal_of c = sell) = (26 \<le> c \<and> c \<le> 40)
   \<and> (signal_of c = strong_sell) = (c \<le> 25)
   \<and> signal (synthesize num_string tk i f t r)
       = signal_of (recommendation.score (synthesize num_string tk i f t r))
   \<and> signal_of 75 = strong_buy \<and> signal_of 74 = buy \<and> signal_of 60 = buy
   \<and> signal_of 59 = hold \<and> signal_of 41 = hold \<and> signal_of 40 = sell
   \<and> signal_of 26 = sell \<and> signal_of 25 = strong_sell"
  by (simp add: signal_of_def synthesize_def)

lemma or_num_nullish: "or_num x d = nullish (zero_as_null x) d"
  by (cases x) (simp_all add: or_num_def nullish_def zero_as_null_def)

text \<open>
  C1, as stated, fails: \<^verbatim>\<open>||\<close> replaces a score of \<open>0\<close> by the default too. With
  \<^verbatim>\<open>f.score = 0\<close> and the other two scores missing the code gives
  \<open>round (50 * 0.35 + 50 * 0.25 + 50 * 0.20 + 10) = 50\<close>, the formula with \<^verbatim>\<open>??\<close> gives
  \<open>round (0 + 12.5 + 10 + 10) = 33\<close>.
\<close>

theorem composite_zero_score_counterexample:
  "composite (no_fundamental\<lparr>fundamental.score := Some 0\<rparr>) no_technical no_risk = 50
   \<and> spec_composite (no_fundamental\<lparr>fundamental.score := Some 0\<rparr>) no_technical no_risk = 33"
  by code_simp

text \<open>
  C1, amended. The composite score is the specification's formula once every score that
  is \<open>0\<close> is taken as missing: the default 50 stands in exactly when the score is
  missing or \<open>0\<close>. The scores 80, 60 and 40 give 61. The scores 46, 72 and 77 give 59:
  the rounded sum is just below 59.5, where the exact sum would be 59.5.
\<close>

theorem composite_formula:
  "composite f t r =
     spec_composite (f\<lparr>fundamental.score := zero_as_null (fundamental.score f)\<rparr>)
       (t\<lparr>technical.score := zero_as_null (technical.score t)\<rparr>)
       (r\<lparr>risk.score := zero_as_null (risk.score r)\<rparr>)
   \<and> composite (no_fundamental\<lparr>fundamental.score := Some 80\<rparr>)
       (no_technical\<lparr>technical.score := Some 60\<rparr>) (no_risk\<lparr>risk.score := Some 40\<rparr>) = 61
   \<and> composite (no_fundamental\<lparr>fundamental.score := Some 46\<rparr>)
       (no_technical\<lparr>technical.score := Some 72\<rparr>) (no_risk\<lparr>risk.score := Some 77\<rparr>) = 59"
proof (intro conjI)
  show "composite f t r =
     spec_composite (f\<lparr>fundamental.score := zero_as_null (fundamental.score f)\<rparr>)
       (t\<lparr>technical.score := zero_as_null (technical.score t)\<rparr>)
       (r\<lparr>risk.score := zero_as_null (risk.score r)\<rparr>)"
    by (simp add: composite_def spec_composite_def or_num_nullish)
  show "composite (no_fundamental\<lparr>fundamental.score := Some 80\<rparr>)
       (no_technical\<lparr>technical.score := Some 60\<rparr>) (no_risk\<lparr>risk.score := Some 40\<rparr>) = 61"
    by code_simp
  show "composite (no_fundamental\<lparr>fundamental.score := Some 46\<rparr>)
       (no_technical\<lparr>technical.score := Some 72\<rparr>) (no_risk\<lparr>risk.score := Some 77\<rparr>) = 59"
    by code_simp
qed

lemma or_num_50_range: "score_in_schema x \<Longrightarrow> 0 < or_num x 50 \<and> or_num x 50 \<le> 100"
  by (cases x) (auto simp: score_in_schema_def or_num_def)

lemma composite_bounds:
  assumes "score_in_schema (fundamental.score f)" "score_in_schema (technical.score t)"
    "score_in_schema (risk.score r)"
  shows "10 \<le> composite f t r \<and> composite f t r \<le> 90"
proof -
  let ?a = "or_num (fundamental.score f) 50" and ?b = "or_num (technical.score t) 50"
    and ?c = "or_num (risk.score r) 50"
  from assms have a: "0 < ?a \<and> ?a \<le> 100" and b: "0 < ?b \<and> ?b \<le> 100" and c: "0 < ?c \<and> ?c \<le> 100"
    by (simp_all add: or_num_50_range)
  let ?A = "fl64 (?a * (3152519739159347 / 9007199254740992))"
  let ?B = "fl64 (?b * (1 / 4))"
  let ?C = "fl64 (?c * (3602879701896397 / 18014398509481984))"
  let ?S1 = "fl64 (?A + ?B)"
  let ?S2 = "fl64 (?S1 + ?C)"
  let ?S3 = "fl64 (?S2 + 10)"
  have A0: "0 \<le> ?A" using a by (intro fl64_nonneg) simp
  have B0: "0 \<le> ?B" using b by (intro fl64_nonneg) simp
  have C0: "0 \<le> ?C" using c by (intro fl64_nonneg) simp
  have A: "?A \<le> ?a * (3152519739159347 / 9007199254740992) + 1 / 1000000000000"
    using a by (intro fl64_near [THEN conjunct2]) linarith+
  have B: "?B \<le> ?b * (1 / 4) + 1 / 1000000000000"
    using b by (intro fl64_near [THEN conjunct2]) linarith+
  have C: "?C \<le> ?c * (3602879701896397 / 18014398509481984) + 1 / 1000000000000"
    using c by (intro fl64_near [THEN conjunct2]) linarith+
  have S10: "0 \<le> ?S1" using A0 B0 by (intro fl64_nonneg) simp
  have S1: "?S1 \<le> ?A + ?B + 1 / 1000000000000"
    using a b A B A0 B0 by (intro fl64_near [THEN conjunct2]) linarith+
  have S20: "0 \<le> ?S2" using S10 C0 by (intro fl64_nonneg) simp
  have S2: "?S2 \<le> ?S1 + ?C + 1 / 1000000000000"
    using a b c A B C S1 S10 C0 by (intro fl64_near [THEN conjunct2]) linarith+
  have S3: "?S2 + 10 - 1 / 1000000000000 \<le> ?S3 \<and> ?S3 \<le> ?S2 + 10 + 1 / 1000000000000"
    using a b c A B C S1 S2 S20 by (intro fl64_near) linarith+
  have lo: "10 - 1 / 1000000000000 \<le> ?S3" using S3 S20 by linarith
  have hi: "?S3 \<le> 90 + 1 / 10000000000"
    using a b c A B C S1 S2 S3 by linarith
  have "(10::int) \<le> \<lfloor>?S3 + 1 / 2\<rfloor>" using lo by (simp add: le_floor_iff)
  moreover have "\<lfloor>?S3 + 1 / 2\<rfloor> \<le> (90::int)" using hi by (simp add: floor_le_iff)
  moreover have "composite f t r = \<lfloor>?S3 + 1 / 2\<rfloor>"
    unfolding composite_def Math_round_def fmul_def fadd_def literal_035 literal_025 literal_020
      fifty_times_020
    by (rule refl)
  ultimately show ?thesis by simp
qed

text \<open>
  C4. When each of the three scores is missing or lies between 0 and 100, the composite
  score, which is the \<^verbatim>\<open>score\<close> of the recommendation, is an integer between 0
  and 100.
\<close>

theorem composite_in_range:
  "score_in_schema (fundamental.score f) \<Longrightarrow> score_in_schema (technical.score t)
     \<Longrightarrow> score_in_schema (risk.score r)
     \<Longrightarrow> 0 \<le> composite f t r \<and> composite f t r \<le> 100
         \<and> recommendation.score (synthesize num_string tk i f t r) = composite f t r"
  using composite_bounds [of f t r] by (simp add: synthesize_def)

theorem composite_in_range_witness:
  "score_in_schema (Some 100) \<and> score_in_schema None
   \<and> 0 \<le> composite (no_fundamental\<lparr>fundamental.score := Some 100\<rparr>)
            (no_technical\<lparr>technical.score := Some 100\<rparr>) no_risk
   \<and> composite (no_fundamental\<lparr>fundamental.score := Some 100\<rparr>)
            (no_technical\<lparr>technical.score := Some 100\<rparr>) no_risk \<le> 100"
proof -
  have h1: "score_in_schema (fundamental.score (no_fundamental\<lparr>fundamental.score := Some 100\<rparr>))"
    by (simp add: score_in_schema_def)
  have h2: "score_in_schema (technical.score (no_technical\<lparr>technical.score := Some 100\<rparr>))"
    by (simp add: score_in_schema_def)
  have h3: "score_in_schema (risk.score no_risk)"
    by (simp add: score_in_schema_def no_risk_def)
  from composite_in_range [OF h1 h2 h3] show ?thesis
    by (simp add: score_in_schema_def)
qed


subsection \<open>Zero and missing values in the synthesis\<close>

lemma push_when_zero: "push_when (Some 0) P txt = push_when None P txt"
  by (simp add: push_when_def)

lemma or_num_zero: "or_num (Some 0) d = or_num None d"
  by (simp add: or_num_def)

text \<open>
  C9. The synthesis treats a value of exactly \<open>0\<close> as a missing one for \<^verbatim>\<open>f.score\<close>,
  \<^verbatim>\<open>t.score\<close>, \<^verbatim>\<open>r.score\<close> and \<^verbatim>\<open>f.trailing_pe\<close>: for every bundle, replacing a
  \<open>0\<close> in any one of these fields by \<^verbatim>\<open>null\<close> gives a recommendation with the same
  ticker, signal, composite score, thesis, bull case, bear case, risk flags and rank.
\<close>

theorem zero_treated_as_null:
  "(fundamental.score f = Some 0 \<longrightarrow>
      same_recommendation (synthesize num_string tk i (f\<lparr>fundamental.score := None\<rparr>) t r)
        (synthesize num_string tk i f t r))
   \<and> (technical.score t = Some 0 \<longrightarrow>
      same_recommendation (synthesize num_string tk i f (t\<lparr>technical.score := None\<rparr>) r)
        (synthesize num_string tk i f t r))
   \<and> (risk.score r = Some 0 \<longrightarrow>
      same_recommendation (synthesize num_string tk i f t (r\<lparr>risk.score := None\<rparr>))
        (synthesize num_string tk i f t r))
   \<and> (trailing_pe f = Some 0 \<longrightarrow>
      same_recommendation (synthesize num_string tk i (f\<lparr>trailing_pe := None\<rparr>) t r)
        (synthesize num_string tk i f t r))"
  by (simp add: same_recommendation_def synthesize_def composite_def thesis_def parts_def
      flags_def bull_def bear_def push_when_zero or_num_zero)

theorem zero_treated_as_null_witness:
  "fundamental.score zero_f = Some 0 \<and> technical.score zero_t = Some 0
   \<and> risk.score zero_r = Some 0 \<and> trailing_pe zero_f = Some 0
   \<and> same_recommendation
        (synthesize no_exponent ''GME'' 0 (zero_f\<lparr>fundamental.score := None\<rparr>) zero_t zero_r)
        (synthesize no_exponent ''GME'' 0 zero_f zero_t zero_r)
   \<and> same_recommendation
        (synthesize no_exponent ''GME'' 0 zero_f (zero_t\<lparr>technical.score := None\<rparr>) zero_r)
        (synthesize no_exponent ''GME'' 0 zero_f zero_t zero_r)
   \<and> same_recommendation
        (synthesize no_exponent ''GME'' 0 zero_f zero_t (zero_r\<lparr>risk.score := None\<rparr>))
        (synthesize no_exponent ''GME'' 0 zero_f zero_t zero_r)
   \<and> same_recommendation
        (synthesize no_exponent ''GME'' 0 (zero_f\<lparr>trailing_pe := None\<rparr>) zero_t zero_r)
        (synthesize no_exponent ''GME'' 0 zero_f zero_t zero_r)
   \<and> recommendation.score (synthesize no_exponent ''GME'' 0 zero_f zero_t zero_r) = 50
   \<and> investment_thesis (synthesize no_exponent ''GME'' 0 zero_f zero_t zero_r)
       = ''GME: revenue growing 25.0% YoY, bullish trend.''"
proof -
  have h: "fundamental.score zero_f = Some 0 \<and> technical.score zero_t = Some 0
      \<and> risk.score zero_r = Some 0 \<and> trailing_pe zero_f = Some 0"
    by (simp add: zero_f_def zero_t_def zero_r_def)
  have v: "recommendation.score (synthesize no_exponent ''GME'' 0 zero_f zero_t zero_r) = 50
      \<and> investment_thesis (synthesize no_exponent ''GME'' 0 zero_f zero_t zero_r)
          = ''GME: revenue growing 25.0% YoY, bullish trend.''"
    by code_simp
  from zero_treated_as_null [of zero_f no_exponent "''GME''" 0 zero_t zero_r] h v
  show ?thesis by simp
qed

subsection \<open>The revenue clause of the thesis\<close>



lemma length_show_nat: "0 < length (show_nat n)"
  by (subst show_nat.simps) simp

lemma toFixed_one_decimal:
  assumes "0 \<le> a" "a < 10 ^ 21"
  shows "toFixed num_string 1 a
           = show_nat (nat \<lfloor>a * 10 + 1 / 2\<rfloor> div 10) @ ''.''
               @ [digit_char (nat \<lfloor>a * 10 + 1 / 2\<rfloor>)]"
proof -
  let ?n = "nat \<lfloor>a * 10 + 1 / 2\<rfloor>"
  show ?thesis
  proof (cases "?n < 10")
    case True
    then have m: "show_nat ?n = [digit_char ?n]" by (subst show_nat.simps) simp
    from True have d: "show_nat (?n div 10) = ''0''"
      by (subst show_nat.simps) (simp add: digit_char_def)
    from assms m d show ?thesis by (simp add: toFixed_def Let_def)
  next
    case False
    then have m: "show_nat ?n = show_nat (?n div 10) @ [digit_char ?n]"
      by (subst show_nat.simps) simp
    from length_show_nat [of "?n div 10"] have "length (show_nat (?n div 10)) \<noteq> 0" by simp
    with assms m show ?thesis by (simp add: toFixed_def Let_def)
  qed
qed




subsection \<open>The weighted score\<close>

lemma with_weight_formula: "weighted_score (with_weight m) = weighted_formula (with_weight m)"
  by (simp add: with_weight_def weighted_formula_def)

lemma rank_formula: "t \<in> set (rank mentions) \<Longrightarrow> weighted_score t = weighted_formula t"
proof -
  assume "t \<in> set (rank mentions)"
  then have "t \<in> set (sort_key (\<lambda>t. - weighted_score t) (map with_weight (map snd mentions)))"
    unfolding rank_def by (rule in_set_takeD)
  then obtain m where "t = with_weight m" by auto
  then show ?thesis by (simp add: with_weight_formula)
qed

text \<open>
  C6. Every entry of the ranked list, as the handler returns it and as \<^verbatim>\<open>fetchTrending\<close>
  returns it, carries \<open>weighted_score = mention_count * 3 + total_score * 0.01
  + total_comments * 0.05\<close>, evaluated as the code evaluates it, in binary64. In the example
  feed \<^verbatim>\<open>GME\<close> has 3 mentions, 300 upvotes and 50 comments, and the weighted score 14.5.
\<close>

theorem weighted_score_formula:
  "(t \<in> set (tickers (handler fetched)) \<longrightarrow> weighted_score t = weighted_formula t)
   \<and> (fetchTrending fetched = Inr ts \<and> t \<in> set ts \<longrightarrow> weighted_score t = weighted_formula t)
   \<and> weighted_formula t
       = fadd (fadd (fmul (of_int (mention_count t)) 3)
                 (fmul (of_int (total_score t)) (fl64 (1 / 100))))
           (fmul (of_int (total_comments t)) (fl64 (5 / 100)))"
proof (intro conjI impI)
  assume "t \<in> set (tickers (handler fetched))"
  then show "weighted_score t = weighted_formula t"
    by (auto simp: handler_def rank_formula split: sum.splits if_splits)
next
  assume "fetchTrending fetched = Inr ts \<and> t \<in> set ts"
  then show "weighted_score t = weighted_formula t"
    by (auto simp: fetchTrending_def rank_formula split: sum.splits if_splits)
next
  show "weighted_formula t
       = fadd (fadd (fmul (of_int (mention_count t)) 3)
                 (fmul (of_int (total_score t)) (fl64 (1 / 100))))
           (fmul (of_int (total_comments t)) (fl64 (5 / 100)))"
    by (simp add: weighted_formula_def)
qed

text \<open>
  The example feed, and an entry with 1 mention, 20 upvotes and 2 comments, whose weighted
  score is the binary64 value next above 3.3, printed as \<^verbatim>\<open>3.3000000000000003\<close>.
\<close>

theorem weighted_score_formula_witness:
  "example_gme \<in> set (tickers (handler (Inr example_upstream)))
   \<and> fetchTrending (Inr example_upstream) = Inr example_ranked
   \<and> example_gme \<in> set example_ranked
   \<and> mention_count example_gme = 3 \<and> total_score example_gme = 300
   \<and> total_comments example_gme = 50
   \<and> weighted_score example_gme = 29 / 2
   \<and> weighted_score
       (with_weight
          \<lparr>mention.ticker = ''TSLA'', mention_count = 1, total_score = 20, total_comments = 2\<rparr>)
       = 7430939385161319 / 2251799813685248"
proof -
  have h1: "example_gme \<in> set (tickers (handler (Inr example_upstream)))" by code_simp
  have h2: "fetchTrending (Inr example_upstream) = Inr example_ranked" by code_simp
  have h3: "example_gme \<in> set example_ranked" by (simp add: example_ranked_def)
  have v: "mention_count example_gme = 3 \<and> total_score example_gme = 300
      \<and> total_comments example_gme = 50"
    by (simp add: example_gme_def)
  have w: "weighted_score example_gme = 29 / 2" by (simp add: example_gme_def)
  have n: "weighted_score
       (with_weight
          \<lparr>mention.ticker = ''TSLA'', mention_count = 1, total_score = 20, total_comments = 2\<rparr>)
       = 7430939385161319 / 2251799813685248"
    by code_simp
  from weighted_score_formula [of example_gme "Inr example_upstream" example_ranked] h1 h2 h3 v w n
  show ?thesis by blast
qed

subsection \<open>The handler\<close>

text \<open>
  C10. The handler answers with status 200 on every path. When the upstream response is
  not \<^verbatim>\<open>ok\<close> the body is \<^verbatim>\<open>{tickers: [], error: "Reddit returned <status>"}\<close>; when
  \<^verbatim>\<open>fetch\<close> or \<^verbatim>\<open>resp.json()\<close> throws, the body is \<^verbatim>\<open>{tickers: [], error: e.message}\<close>.
\<close>

theorem handler_always_200:
  "response.status (handler fetched) = 200
   \<and> handler (Inl msg) = \<lparr>response.status = 200, tickers = [], error = Some msg\<rparr>
   \<and> (\<not> ok resp \<longrightarrow>
        handler (Inr resp)
          = \<lparr>response.status = 200, tickers = [],
             error = Some (''Reddit returned '' @ show_nat (upstream.status resp))\<rparr>)
   \<and> (ok resp' \<and> json resp' = Inl msg' \<longrightarrow>
        handler (Inr resp') = \<lparr>response.status = 200, tickers = [], error = Some msg'\<rparr>)"
  by (simp add: handler_def split: sum.splits)

theorem handler_always_200_witness:
  "\<not> ok \<lparr>ok = False, upstream.status = 429, json = Inr None\<rparr>
   \<and> handler (Inr \<lparr>ok = False, upstream.status = 429, json = Inr None\<rparr>)
       = \<lparr>response.status = 200, tickers = [], error = Some ''Reddit returned 429''\<rparr>
   \<and> ok \<lparr>ok = True, upstream.status = 200, json = Inl ''Unexpected token''\<rparr>
   \<and> handler (Inr \<lparr>ok = True, upstream.status = 200, json = Inl ''Unexpected token''\<rparr>)
       = \<lparr>response.status = 200, tickers = [], error = Some ''Unexpected token''\<rparr>"
proof -
  have n: "show_nat 429 = ''429''" by code_simp
  from handler_always_200 [of "Inl ''x''" "''x''"
      "\<lparr>ok = False, upstream.status = 429, json = Inr None\<rparr>"
      "\<lparr>ok = True, upstream.status = 200, json = Inl ''Unexpected token''\<rparr>" "''Unexpected token''"] n
  show ?thesis by simp
qed

subsection \<open>The ranked tickers are distinct\<close>

lemma set_update_subset: "set (AList.update k v al) \<subseteq> insert (k, v) (set al)"
  by (induction al) auto

lemma count_mention_inv:
  assumes "distinct (map fst ms)" and "\<forall>p \<in> set ms. mention.ticker (snd p) = fst p"
  shows "distinct (map fst (count_mention p ms tk))
         \<and> (\<forall>q \<in> set (count_mention p ms tk). mention.ticker (snd q) = fst q)"
proof -
  let ?m = "case map_of ms tk of
              None \<Rightarrow> \<lparr>mention.ticker = tk, mention_count = 0, total_score = 0, total_comments = 0\<rparr>
            | Some m \<Rightarrow> m"
  have tk: "mention.ticker ?m = tk"
  proof (cases "map_of ms tk")
    case None
    then show ?thesis by simp
  next
    case (Some m)
    then have "(tk, m) \<in> set ms" by (rule map_of_SomeD)
    with assms(2) Some show ?thesis by auto
  qed
  let ?m' = "?m\<lparr>mention_count := mention_count ?m + 1,
              total_score := total_score ?m + or_num (post.score p) 0,
              total_comments := total_comments ?m + or_num (num_comments p) 0\<rparr>"
  have eq: "count_mention p ms tk = AList.update tk ?m' ms"
    by (simp add: count_mention_def Let_def)
  have tk': "mention.ticker ?m' = tk" using tk by simp
  have "distinct (map fst (AList.update tk ?m' ms))"
    using assms(1) by (rule distinct_update)
  moreover have "\<forall>q \<in> set (AList.update tk ?m' ms). mention.ticker (snd q) = fst q"
    using set_update_subset [of tk ?m' ms] assms(2) tk' by auto
  ultimately show ?thesis unfolding eq by blast
qed

lemma foldl_count_mention_inv:
  "distinct (map fst ms) \<Longrightarrow> \<forall>p \<in> set ms. mention.ticker (snd p) = fst p
   \<Longrightarrow> distinct (map fst (foldl (count_mention p) ms tks))
       \<and> (\<forall>q \<in> set (foldl (count_mention p) ms tks). mention.ticker (snd q) = fst q)"
proof (induction tks arbitrary: ms)
  case Nil
  then show ?case by simp
next
  case (Cons tk tks)
  from count_mention_inv [OF Cons.prems, of p tk] Cons.IH [of "count_mention p ms tk"]
  show ?case by simp
qed

lemma count_post_inv:
  "distinct (map fst ms) \<Longrightarrow> \<forall>p \<in> set ms. mention.ticker (snd p) = fst p
   \<Longrightarrow> distinct (map fst (count_post ms child))
       \<and> (\<forall>q \<in> set (count_post ms child). mention.ticker (snd q) = fst q)"
  using foldl_count_mention_inv by (cases child) (simp_all add: count_post_def)

lemma foldl_count_post_inv:
  "distinct (map fst ms) \<Longrightarrow> \<forall>p \<in> set ms. mention.ticker (snd p) = fst p
   \<Longrightarrow> distinct (map fst (foldl count_post ms children))
       \<and> (\<forall>q \<in> set (foldl count_post ms children). mention.ticker (snd q) = fst q)"
proof (induction children arbitrary: ms)
  case Nil
  then show ?case by simp
next
  case (Cons child children)
  from count_post_inv [OF Cons.prems, of child] Cons.IH [of "count_post ms child"]
  show ?case by simp
qed

lemma with_weight_ticker: "mention.ticker (with_weight m) = mention.ticker m"
  by (simp add: with_weight_def)

lemma distinct_map_sort_key: "distinct (map f xs) \<Longrightarrow> distinct (map f (sort_key g xs))"
  by (simp add: distinct_map)

lemma rank_distinct_tickers: "distinct (map mention.ticker (rank (aggregate children)))"
proof -
  let ?ms = "aggregate children"
  from foldl_count_post_inv [of "[]" children]
  have d: "distinct (map fst ?ms)" and k: "\<forall>q \<in> set ?ms. mention.ticker (snd q) = fst q"
    by (simp_all add: aggregate_def)
  let ?ws = "map with_weight (map snd ?ms)"
  from k have "map mention.ticker ?ws = map fst ?ms"
    by (simp add: with_weight_ticker)
  with d have dw: "distinct (map mention.ticker ?ws)" by (simp only:)
  then have "distinct (map mention.ticker (sort_key (\<lambda>t. - weighted_score t) ?ws))"
    by (rule distinct_map_sort_key)
  then have "distinct (take 20 (map mention.ticker (sort_key (\<lambda>t. - weighted_score t) ?ws)))"
    by (rule distinct_take)
  then show ?thesis by (simp add: rank_def take_map)
qed

subsection \<open>The per-ticker loop\<close>

lemma analyse_ticker: "analyse num_string i tk fetched = Inr rec \<Longrightarrow> recommendation.ticker rec = tk"
  by (auto simp: analyse_def synthesize_def split: sum.splits option.splits)

lemma keyed_update:
  "keyed al \<Longrightarrow> recommendation.ticker rec = k \<Longrightarrow> keyed (AList.update k rec al)"
  using set_update_subset [of k rec al] by (auto simp: keyed_def)

lemma analyse_from_keyed:
  "keyed (stocks st) \<Longrightarrow> keyed (stocks (analyse_from num_string fetchStockDetail n i ts st))"
proof (induction ts arbitrary: i st)
  case Nil
  then show ?case by simp
next
  case (Cons t rest)
  show ?case
  proof (cases "analyse num_string i (mention.ticker t) (fetchStockDetail i (mention.ticker t))")
    case (Inl msg)
    with Cons show ?thesis by (simp add: Let_def)
  next
    case (Inr rec)
    with Cons.prems have "keyed (AList.update (mention.ticker t) rec (stocks st))"
      by (simp add: keyed_update analyse_ticker)
    with Inr Cons.IH show ?thesis by (simp add: Let_def)
  qed
qed

lemma analyse_from_stocks:
  "tk \<in> fst ` set (stocks (analyse_from num_string fetchStockDetail n i ts st)) \<longleftrightarrow>
     tk \<in> fst ` set (stocks st)
     \<or> (\<exists>j<length ts. mention.ticker (ts ! j) = tk
           \<and> \<not> isl (analyse num_string (i + j) tk (fetchStockDetail (i + j) tk)))"
proof (induction ts arbitrary: i st)
  case Nil
  then show ?case by simp
next
  case (Cons t rest)
  show ?case
  proof (cases "analyse num_string i (mention.ticker t) (fetchStockDetail i (mention.ticker t))")
    case (Inl msg)
    with Cons.IH [of "i + 1"] show ?thesis
      by (auto simp: Let_def Ex_less_Suc2)
  next
    case (Inr rec)
    with Cons.IH [of "i + 1"] show ?thesis
      by (auto simp: Let_def Ex_less_Suc2 dom_update)
  qed
qed

lemma analyse_from_warned:
  "tk \<in> fst ` set (warned (analyse_from num_string fetchStockDetail n i ts st)) \<longleftrightarrow>
     tk \<in> fst ` set (warned st)
     \<or> (\<exists>j<length ts. mention.ticker (ts ! j) = tk
           \<and> isl (analyse num_string (i + j) tk (fetchStockDetail (i + j) tk)))"
proof (induction ts arbitrary: i st)
  case Nil
  then show ?case by simp
next
  case (Cons t rest)
  show ?case
  proof (cases "analyse num_string i (mention.ticker t) (fetchStockDetail i (mention.ticker t))")
    case (Inl msg)
    with Cons.IH [of "i + 1"] show ?thesis
      by (auto simp: Let_def Ex_less_Suc2)
  next
    case (Inr rec)
    with Cons.IH [of "i + 1"] show ?thesis
      by (auto simp: Let_def Ex_less_Suc2)
  qed
qed

lemma analyse_from_error:
  "app.error (analyse_from num_string fetchStockDetail n i ts st) = app.error st"
  by (induction ts arbitrary: i st) (auto simp: Let_def split: sum.splits)

lemma recommended_keys: "keyed (stocks st) \<Longrightarrow> recommended st = fst ` set (stocks st)"
  by (force simp: recommended_def recommendations_def keyed_def)


lemma runAnalysis_run:
  assumes "take 8 ts \<noteq> []"
  shows "runAnalysis num_string (Inr (Some ts)) fetchStockDetail st0
           = (analyse_from num_string fetchStockDetail (length (take 8 ts)) 0 (take 8 ts)
                (st0\<lparr>loading := True, error := None, stocks := [],
                      progress := ''Scanning r/WallStreetBets for trending stocks...'',
                      trending := take 8 ts\<rparr>))
               \<lparr>progress := '''', loading := False\<rparr>"
  using assms by (simp add: runAnalysis_def Let_def)

text \<open>
  C3. In a run over the tickers \<open>tks\<close> (the first eight of the trending list \<open>ts\<close>), let
  the iteration at index \<open>i\<close> fail, in the provider's call or in the synthesis. Then that
  ticker is not among the recommendations, given that the tickers are distinct, as they
  are when the trending list comes from the ranking; every ticker whose iteration does
  not fail, before or after \<open>i\<close>, is among the recommendations; every ticker whose
  iteration fails is logged; and the run ends without an error, with \<^verbatim>\<open>loading\<close> reset.
\<close>

theorem failed_ticker_skipped_rest_processed:
  assumes "tks = take 8 ts" and "i < length tks"
    and "skipped_at num_string fetchStockDetail tks i"
  shows "(distinct (map mention.ticker tks) \<longrightarrow>
            mention.ticker (tks ! i)
              \<notin> recommended (runAnalysis num_string (Inr (Some ts)) fetchStockDetail st0))
         \<and> (ts = rank (aggregate children) \<longrightarrow>
            mention.ticker (tks ! i)
              \<notin> recommended (runAnalysis num_string (Inr (Some ts)) fetchStockDetail st0))
         \<and> (\<forall>j<length tks. \<not> skipped_at num_string fetchStockDetail tks j \<longrightarrow>
              mention.ticker (tks ! j)
                \<in> recommended (runAnalysis num_string (Inr (Some ts)) fetchStockDetail st0))
         \<and> (\<forall>j<length tks. skipped_at num_string fetchStockDetail tks j \<longrightarrow>
              mention.ticker (tks ! j)
                \<in> fst ` set (warned (runAnalysis num_string (Inr (Some ts)) fetchStockDetail st0)))
         \<and> app.error (runAnalysis num_string (Inr (Some ts)) fetchStockDetail st0) = None
         \<and> \<not> loading (runAnalysis num_string (Inr (Some ts)) fetchStockDetail st0)"
proof -
  let ?st = "st0\<lparr>loading := True, error := None, stocks := [],
                  progress := ''Scanning r/WallStreetBets for trending stocks...'',
                  trending := take 8 ts\<rparr>"
  let ?loop = "analyse_from num_string fetchStockDetail (length tks) 0 tks ?st"
  let ?final = "runAnalysis num_string (Inr (Some ts)) fetchStockDetail st0"
  from assms(1,2) have ne: "take 8 ts \<noteq> []" by auto
  have final: "?final = ?loop\<lparr>progress := '''', loading := False\<rparr>"
    using runAnalysis_run [OF ne] assms(1) by simp
  have "keyed (stocks ?st)" by (simp add: keyed_def)
  then have "keyed (stocks ?loop)" by (rule analyse_from_keyed)
  then have "keyed (stocks ?final)" by (simp add: final)
  then have rec: "recommended ?final = fst ` set (stocks ?loop)"
    by (simp add: recommended_keys final)
  have keys: "tk \<in> recommended ?final \<longleftrightarrow>
      (\<exists>j<length tks. mention.ticker (tks ! j) = tk
         \<and> \<not> skipped_at num_string fetchStockDetail tks j)" for tk
    unfolding rec analyse_from_stocks skipped_at_def by auto
  have warns: "(\<exists>j<length tks. mention.ticker (tks ! j) = tk
         \<and> skipped_at num_string fetchStockDetail tks j)
      \<Longrightarrow> tk \<in> fst ` set (warned ?final)" for tk
    unfolding final skipped_at_def by (simp add: analyse_from_warned) auto
  have a: "mention.ticker (tks ! i) \<notin> recommended ?final"
    if d: "distinct (map mention.ticker tks)"
  proof
    assume "mention.ticker (tks ! i) \<in> recommended ?final"
    then obtain j where j: "j < length tks"
      and eq: "mention.ticker (tks ! j) = mention.ticker (tks ! i)"
      and ok: "\<not> skipped_at num_string fetchStockDetail tks j"
      unfolding keys by blast
    from d j assms(2) eq have "j = i"
      using nth_eq_iff_index_eq [of "map mention.ticker tks" j i] by simp
    with ok assms(3) show False by simp
  qed
  have a': "mention.ticker (tks ! i) \<notin> recommended ?final"
    if r: "ts = rank (aggregate children)"
  proof -
    have "distinct (take 8 (map mention.ticker ts))"
      unfolding r using rank_distinct_tickers by (rule distinct_take)
    then have "distinct (map mention.ticker tks)"
      by (simp add: assms(1) take_map)
    then show ?thesis by (rule a)
  qed
  have b: "\<forall>j<length tks. \<not> skipped_at num_string fetchStockDetail tks j \<longrightarrow>
              mention.ticker (tks ! j) \<in> recommended ?final"
    unfolding keys by blast
  have c: "\<forall>j<length tks. skipped_at num_string fetchStockDetail tks j \<longrightarrow>
              mention.ticker (tks ! j) \<in> fst ` set (warned ?final)"
    using warns by blast
  have e: "app.error ?final = None" by (simp add: final analyse_from_error)
  have l: "\<not> loading ?final" by (simp add: final)
  from a a' b c e l show ?thesis by blast
qed

theorem failed_ticker_skipped_rest_processed_witness:
  "example_ranked = take 8 example_ranked \<and> 0 < length example_ranked
   \<and> skipped_at no_exponent example_provider example_ranked 0
   \<and> distinct (map mention.ticker example_ranked)
   \<and> example_ranked = rank (aggregate example_children)
   \<and> \<not> skipped_at no_exponent example_provider example_ranked 1
   \<and> ''GME'' \<notin> recommended (runAnalysis no_exponent (Inr (Some example_ranked)) example_provider example_app)
   \<and> ''TSLA'' \<in> recommended (runAnalysis no_exponent (Inr (Some example_ranked)) example_provider example_app)
   \<and> ''GME'' \<in> fst ` set (warned (runAnalysis no_exponent (Inr (Some example_ranked)) example_provider example_app))"
proof -
  have h1: "example_ranked = take 8 example_ranked" by (simp add: example_ranked_def)
  have h2: "0 < length example_ranked" by (simp add: example_ranked_def)
  have h3: "skipped_at no_exponent example_provider example_ranked 0" by code_simp
  have d: "distinct (map mention.ticker example_ranked)"
    by (simp add: example_ranked_def example_gme_def)
  have r: "example_ranked = rank (aggregate example_children)" by code_simp
  have j: "1 < length example_ranked" by (simp add: example_ranked_def)
  have ok: "\<not> skipped_at no_exponent example_provider example_ranked 1" by code_simp
  have n0: "mention.ticker (example_ranked ! 0) = ''GME''"
    by (simp add: example_ranked_def example_gme_def)
  have n1: "mention.ticker (example_ranked ! 1) = ''TSLA''"
    by (simp add: example_ranked_def)
  from failed_ticker_skipped_rest_processed [OF h1 h2 h3, of example_app example_children]
    d j ok n0 n1 h2 h3
  have "''GME'' \<notin> recommended (runAnalysis no_exponent (Inr (Some example_ranked)) example_provider example_app)
   \<and> ''TSLA'' \<in> recommended (runAnalysis no_exponent (Inr (Some example_ranked)) example_provider example_app)
   \<and> ''GME'' \<in> fst ` set (warned (runAnalysis no_exponent (Inr (Some example_ranked)) example_provider example_app))"
    by metis
  with h1 h2 h3 d r ok show ?thesis by blast
qed

end
